theory Spec2Isabelle
  imports Complex_Main
begin

section \<open>Exceptions and the call log\<close>

text \<open>
  Every failure the pipeline handles is a Python exception below \<open>Exception\<close>. The only
  class the source tells apart is \<open>RateLimitError\<close> (main.py, step 2); \<open>ValueError\<close> is
  what \<open>get_alpaca_client\<close> raises itself. Each exception carries the text \<open>str(e)\<close>.
\<close>

datatype exn = RateLimitError string | ValueError string | OtherError string

fun str_of_exn :: "exn \<Rightarrow> string" where
  "str_of_exn (RateLimitError m) = m"
| "str_of_exn (ValueError m) = m"
| "str_of_exn (OtherError m) = m"

text \<open>
  The calls that leave the process. The run state is the log of the calls made so far,
  in order, together with the outside world \<open>'w\<close> (broker, model providers) that each
  call may read and change.
\<close>

datatype call =
    Get_clock
  | Get_account
  | Get_all_positions
  | Research_companies
  | Analyze_fundamentals
  | Make_investment_decision
  | Submit_order string int

type_synonym 'w st = "call list \<times> 'w"

definition invoke :: "call \<Rightarrow> ('w \<Rightarrow> 'a \<times> 'w) \<Rightarrow> 'w st \<Rightarrow> 'a \<times> 'w st" where
  "invoke c f st = (case f (snd st) of (r, w') \<Rightarrow> (r, (fst st @ [c], w')))"

section \<open>models.py\<close>

text \<open>
  The dataclasses, with the field types of their annotations; \<open>float\<close> is modelled by
  \<open>real\<close> (no property below depends on rounding) and the \<open>timestamp\<close> defaults, which
  read the clock, are left out. Field names carry a prefix because several classes
  share names.
\<close>

record company_pick =
  cp_company :: string
  cp_ticker :: string
  cp_rationale :: string
  cp_news_summary :: string

record gpt_response =
  picks :: "company_pick list"

record fundamental_data =
  fd_company :: string
  fd_ticker :: string
  fd_pe_ratio :: "real option"
  fd_cash_flow :: "real option"
  fd_revenue :: "real option"
  fd_market_cap :: "real option"
  fd_debt_to_equity :: "real option"
  fd_earnings_growth :: "real option"
  fd_dividend_yield :: "real option"
  fd_additional_metrics :: "(string \<times> string) list"
  fd_analysis_notes :: string

record claude_response =
  fundamentals :: "fundamental_data list"

record investment_decision =
  d_company :: string
  d_ticker :: string
  d_action :: string
  d_shares :: int
  d_rationale :: string
  d_confidence :: real
  d_risk_assessment :: string

record grok_response =
  decisions :: "investment_decision list"
  portfolio_risk_analysis :: string
  available_capital :: real

record trade_result =
  tr_ticker :: string
  tr_shares :: int
  tr_action :: string
  tr_price :: real
  tr_total_value :: real
  tr_success :: bool
  tr_order_id :: "string option"
  tr_error_message :: "string option"

section \<open>alpaca_client.py\<close>

text \<open>
  What the broker's library hands back: numbers arrive as optional strings and are
  converted with \<open>float(...)\<close> by the source.
\<close>

record client =
  api_key :: string
  api_secret :: string
  paper :: bool

record raw_account =
  ra_cash :: "string option"
  ra_portfolio_value :: "string option"
  ra_buying_power :: "string option"

record raw_position =
  rp_symbol :: string
  rp_qty :: "string option"
  rp_market_value :: "string option"
  rp_avg_entry_price :: "string option"
  rp_current_price :: "string option"
  rp_unrealized_pl :: "string option"
  rp_unrealized_plpc :: "string option"

record order =
  o_id :: string
  o_filled_avg_price :: "string option"

record position =
  qty :: real
  market_value :: real
  avg_entry_price :: real
  current_price :: real
  unrealized_pl :: real
  unrealized_plpc :: real

record account_info =
  cash :: real
  portfolio_value :: real
  buying_power :: real
  positions :: "string \<rightharpoonup> position"

text \<open>
  Everything the code calls but does not define: the process environment
  (\<open>os.environ\<close>), Python's \<open>float\<close> on strings (\<open>None\<close> where it raises ValueError), the
  broker's client methods and the three model stages. Each outside call returns a value
  or raises, and may change the world.
\<close>

record 'w adapters =
  environ :: "string \<rightharpoonup> string"
  py_float :: "string \<Rightarrow> real option"
  get_clock :: "client \<Rightarrow> 'w \<Rightarrow> (exn + bool) \<times> 'w"
  get_account :: "client \<Rightarrow> 'w \<Rightarrow> (exn + raw_account) \<times> 'w"
  get_all_positions :: "client \<Rightarrow> 'w \<Rightarrow> (exn + raw_position list) \<times> 'w"
  submit_order :: "client \<Rightarrow> string \<Rightarrow> int \<Rightarrow> 'w \<Rightarrow> (exn + order) \<times> 'w"
  research_companies :: "'w \<Rightarrow> (exn + gpt_response) \<times> 'w"
  analyze_fundamentals :: "company_pick list \<Rightarrow> 'w \<Rightarrow> (exn + claude_response) \<times> 'w"
  make_investment_decision ::
    "company_pick list \<Rightarrow> fundamental_data list \<Rightarrow> real \<Rightarrow> (string \<rightharpoonup> position)
       \<Rightarrow> 'w \<Rightarrow> (exn + grok_response) \<times> 'w"

text \<open>\<open>str.lower()\<close>, on the letters that matter for the comparison with \<open>"true"\<close>.\<close>

definition lower_char :: "char \<Rightarrow> char" where
  "lower_char c =
     (if (65::nat) \<le> of_char c \<and> of_char c \<le> (90::nat)
      then char_of (of_char c + (32::nat)) else c)"

text \<open>
  \<open>get_alpaca_client\<close>: \<open>not api_key\<close> holds for a missing variable and for an empty one.
\<close>

definition get_alpaca_client :: "'w adapters \<Rightarrow> exn + client" where
  "get_alpaca_client env =
     (case (environ env ''ALPACA_API_KEY'', environ env ''ALPACA_API_SECRET'') of
        (Some k, Some s) \<Rightarrow>
          (if k = [] \<or> s = []
           then Inl (ValueError
             ''ALPACA_API_KEY and ALPACA_API_SECRET environment variables must be set'')
           else Inr \<lparr>api_key = k, api_secret = s,
                     paper = (map lower_char
                                (case environ env ''ALPACA_LIVE'' of
                                   None \<Rightarrow> ''false'' | Some v \<Rightarrow> v) \<noteq> ''true'')\<rparr>)
      | _ \<Rightarrow> Inl (ValueError
             ''ALPACA_API_KEY and ALPACA_API_SECRET environment variables must be set''))"

text \<open>\<open>float(x)\<close> for an optional string: TypeError on \<open>None\<close>, ValueError on a bad string.\<close>

definition to_float :: "'w adapters \<Rightarrow> string option \<Rightarrow> exn + real" where
  "to_float env x =
     (case x of
        None \<Rightarrow> Inl (OtherError ''float() argument must be a string or a real number'')
      | Some s \<Rightarrow>
          (case py_float env s of
             None \<Rightarrow> Inl (ValueError ''could not convert string to float'')
           | Some r \<Rightarrow> Inr r))"

definition bind_exn :: "exn + 'a \<Rightarrow> ('a \<Rightarrow> exn + 'b) \<Rightarrow> exn + 'b" where
  "bind_exn x f = (case x of Inl e \<Rightarrow> Inl e | Inr v \<Rightarrow> f v)"

text \<open>The dict built for one position, its six conversions in source order.\<close>

definition position_floats :: "'w adapters \<Rightarrow> raw_position \<Rightarrow> exn + position" where
  "position_floats env pos =
     bind_exn (to_float env (rp_qty pos)) (\<lambda>q.
     bind_exn (to_float env (rp_market_value pos)) (\<lambda>mv.
     bind_exn (to_float env (rp_avg_entry_price pos)) (\<lambda>ae.
     bind_exn (to_float env (rp_current_price pos)) (\<lambda>cp.
     bind_exn (to_float env (rp_unrealized_pl pos)) (\<lambda>pl.
     bind_exn (to_float env (rp_unrealized_plpc pos)) (\<lambda>plpc.
       Inr \<lparr>qty = q, market_value = mv, avg_entry_price = ae, current_price = cp,
            unrealized_pl = pl, unrealized_plpc = plpc\<rparr>))))))"

text \<open>The loop \<open>for pos in positions: positions_dict[pos.symbol] = {...}\<close>.\<close>

fun positions_loop ::
  "'w adapters \<Rightarrow> raw_position list \<Rightarrow> (string \<rightharpoonup> position) \<Rightarrow> exn + (string \<rightharpoonup> position)"
where
  "positions_loop env [] positions_dict = Inr positions_dict"
| "positions_loop env (pos # rest) positions_dict =
     (case position_floats env pos of
        Inl e \<Rightarrow> Inl e
      | Inr v \<Rightarrow> positions_loop env rest (positions_dict(rp_symbol pos \<mapsto> v)))"

definition get_account_info :: "'w adapters \<Rightarrow> 'w st \<Rightarrow> (exn + account_info) \<times> 'w st" where
  "get_account_info env st =
     (case get_alpaca_client env of
        Inl e \<Rightarrow> (Inl e, st)
      | Inr c \<Rightarrow>
     (case invoke Get_account (get_account env c) st of
        (Inl e, st1) \<Rightarrow> (Inl e, st1)
      | (Inr account, st1) \<Rightarrow>
     (case invoke Get_all_positions (get_all_positions env c) st1 of
        (Inl e, st2) \<Rightarrow> (Inl e, st2)
      | (Inr raw_positions, st2) \<Rightarrow>
          (bind_exn (positions_loop env raw_positions Map.empty) (\<lambda>positions_dict.
           bind_exn (to_float env (ra_cash account)) (\<lambda>c.
           bind_exn (to_float env (ra_portfolio_value account)) (\<lambda>pv.
           bind_exn (to_float env (ra_buying_power account)) (\<lambda>bp.
             Inr \<lparr>cash = c, portfolio_value = pv, buying_power = bp,
                  positions = positions_dict\<rparr>)))),
           st2))))"

text \<open>\<open>check_market_open\<close>: the client, then \<open>client.get_clock().is_open\<close>.\<close>

definition check_market_open :: "'w adapters \<Rightarrow> 'w st \<Rightarrow> (exn + bool) \<times> 'w st" where
  "check_market_open env st =
     (case get_alpaca_client env of
        Inl e \<Rightarrow> (Inl e, st)
      | Inr c \<Rightarrow> invoke Get_clock (get_clock env c) st)"

text \<open>
  \<open>execute_trades\<close>. The body of the \<open>try\<close> for one decision is \<open>attempt\<close>: the order is
  submitted (building the request is part of that call), then the fill price is read,
  \<open>0.0\<close> when the field is \<open>None\<close> or empty. Whatever it raises is caught by
  \<open>except Exception\<close>, which appends the failed result.
\<close>

definition eligible :: "investment_decision \<Rightarrow> bool" where
  "eligible decision = (\<not> (d_action decision \<noteq> ''BUY'' \<or> d_shares decision \<le> 0))"

definition attempt ::
  "'w adapters \<Rightarrow> client \<Rightarrow> investment_decision \<Rightarrow> 'w st \<Rightarrow> (exn + order \<times> real) \<times> 'w st"
where
  "attempt env c decision st =
     (case invoke (Submit_order (d_ticker decision) (d_shares decision))
             (submit_order env c (d_ticker decision) (d_shares decision)) st of
        (Inl e, st1) \<Rightarrow> (Inl e, st1)
      | (Inr ord, st1) \<Rightarrow>
          (case o_filled_avg_price ord of
             None \<Rightarrow> (Inr (ord, 0), st1)
           | Some p \<Rightarrow>
               (if p = [] then (Inr (ord, 0), st1)
                else (case py_float env p of
                        None \<Rightarrow> (Inl (ValueError ''could not convert string to float''), st1)
                      | Some filled_price \<Rightarrow> (Inr (ord, filled_price), st1)))))"

definition filled_result :: "investment_decision \<Rightarrow> order \<Rightarrow> real \<Rightarrow> trade_result" where
  "filled_result decision ord filled_price =
     \<lparr>tr_ticker = d_ticker decision, tr_shares = d_shares decision, tr_action = ''BUY'',
      tr_price = filled_price, tr_total_value = filled_price * of_int (d_shares decision),
      tr_success = True, tr_order_id = Some (o_id ord), tr_error_message = None\<rparr>"

definition failed_result :: "investment_decision \<Rightarrow> exn \<Rightarrow> trade_result" where
  "failed_result decision e =
     \<lparr>tr_ticker = d_ticker decision, tr_shares = d_shares decision, tr_action = ''BUY'',
      tr_price = 0, tr_total_value = 0,
      tr_success = False, tr_order_id = None, tr_error_message = Some (str_of_exn e)\<rparr>"

definition execute_one ::
  "'w adapters \<Rightarrow> client \<Rightarrow> investment_decision \<Rightarrow> 'w st \<Rightarrow> trade_result \<times> 'w st"
where
  "execute_one env c decision st =
     (case attempt env c decision st of
        (Inr (ord, filled_price), st1) \<Rightarrow> (filled_result decision ord filled_price, st1)
      | (Inl e, st1) \<Rightarrow> (failed_result decision e, st1))"

text \<open>The \<open>for\<close> loop, with the list \<open>results\<close> it appends to.\<close>

fun execute_loop ::
  "'w adapters \<Rightarrow> client \<Rightarrow> investment_decision list \<Rightarrow> trade_result list \<Rightarrow> 'w st
     \<Rightarrow> trade_result list \<times> 'w st"
where
  "execute_loop env c [] results st = (results, st)"
| "execute_loop env c (decision # rest) results st =
     (if d_action decision \<noteq> ''BUY'' \<or> d_shares decision \<le> 0
      then execute_loop env c rest results st
      else (case execute_one env c decision st of
              (r, st1) \<Rightarrow> execute_loop env c rest (results @ [r]) st1))"

definition execute_trades ::
  "'w adapters \<Rightarrow> investment_decision list \<Rightarrow> 'w st \<Rightarrow> (exn + trade_result list) \<times> 'w st"
where
  "execute_trades env ds st =
     (case get_alpaca_client env of
        Inl e \<Rightarrow> (Inl e, st)
      | Inr c \<Rightarrow> (case execute_loop env c ds [] st of (results, st1) \<Rightarrow> (Inr results, st1)))"

section \<open>main.py: run_trading_pipeline\<close>

text \<open>The loop over \<open>trade_results\<close> that lowers \<open>all_successful\<close>.\<close>

fun check_results :: "trade_result list \<Rightarrow> bool \<Rightarrow> bool" where
  "check_results [] all_successful = all_successful"
| "check_results (r # rest) all_successful =
     check_results rest (if tr_success r then all_successful else False)"

definition summarise :: "trade_result list \<Rightarrow> bool" where
  "summarise trade_results =
     (let all_successful = check_results trade_results True
      in if trade_results = [] then True else all_successful)"

text \<open>
  The pipeline. Every \<open>return False\<close> of the source is a branch: the closed market, the
  \<open>RateLimitError\<close> handler around the research stage, and the outer
  \<open>except Exception\<close>, which any other exception of any stage reaches. The logging
  statements format values of the annotated types and do not raise.
\<close>

definition run_trading_pipeline :: "'w adapters \<Rightarrow> 'w st \<Rightarrow> bool \<times> 'w st" where
  "run_trading_pipeline env st =
     (case check_market_open env st of
        (Inl e, st0) \<Rightarrow> (False, st0)
      | (Inr is_open, st0) \<Rightarrow>
     (if \<not> is_open then (False, st0) else
     (case get_account_info env st0 of
        (Inl e, st1) \<Rightarrow> (False, st1)
      | (Inr info, st1) \<Rightarrow>
     (case invoke Research_companies (research_companies env) st1 of
        (Inl e, st2) \<Rightarrow>
          (case e of RateLimitError m \<Rightarrow> (False, st2) | _ \<Rightarrow> (False, st2))
      | (Inr gpt, st2) \<Rightarrow>
     (case invoke Analyze_fundamentals (analyze_fundamentals env (picks gpt)) st2 of
        (Inl e, st3) \<Rightarrow> (False, st3)
      | (Inr claude, st3) \<Rightarrow>
     (case invoke Make_investment_decision
             (make_investment_decision env (picks gpt) (fundamentals claude)
                (cash info) (positions info)) st3 of
        (Inl e, st4) \<Rightarrow> (False, st4)
      | (Inr grok, st4) \<Rightarrow>
     (case execute_trades env (decisions grok) st4 of
        (Inl e, st5) \<Rightarrow> (False, st5)
      | (Inr trade_results, st5) \<Rightarrow> (summarise trade_results, st5))))))))"

text \<open>
  \<open>EduardoScheduler(run_trading_pipeline)\<close>: the pipeline as the scheduler's task. It
  returns its bool and lets no exception out.
\<close>

definition pipeline_task :: "'w adapters \<Rightarrow> 'w st \<Rightarrow> (exn + bool) \<times> 'w st" where
  "pipeline_task env st = (case run_trading_pipeline env st of (b, st') \<Rightarrow> (Inr b, st'))"

section \<open>scheduler.py: EduardoScheduler\<close>

text \<open>
  The scheduler object holds the flag \<open>retry_scheduled\<close>; the jobs it registers live in the
  job list of the \<open>schedule\<close> module. \<open>Job_run_task\<close> is the job of
  \<open>schedule.every().monday.at("08:30").do(self.run_task)\<close>, \<open>Job_retry_once\<close> the job of
  \<open>schedule.every().day.at("08:30").do(self._retry_once).tag('retry')\<close>.
\<close>

datatype job = Job_run_task | Job_retry_once

record scheduler =
  retry_scheduled :: bool
  jobs :: "job list"

text \<open>\<open>__init__\<close>: the flag is cleared; nothing is registered yet.\<close>

definition init_scheduler :: scheduler where
  "init_scheduler = \<lparr>retry_scheduled = False, jobs = []\<rparr>"

text \<open>
  \<open>task_func\<close> is a callable that returns a bool or raises; it acts on the outside world
  \<open>'w\<close>, which is threaded through every call.
\<close>

type_synonym 'w task_func = "'w \<Rightarrow> (exn + bool) \<times> 'w"

text \<open>\<open>_schedule_retry\<close>: registers one retry job, guarded by the flag.\<close>

definition schedule_retry :: "scheduler \<Rightarrow> scheduler" where
  "schedule_retry s =
     (if \<not> retry_scheduled s
      then s\<lparr>retry_scheduled := True, jobs := jobs s @ [Job_retry_once]\<rparr>
      else s)"

text \<open>
  \<open>run_task\<close>: one call of \<open>task_func\<close>; success clears the flag, a False result and an
  exception both go to \<open>_schedule_retry\<close>.
\<close>

definition run_task :: "'w task_func \<Rightarrow> scheduler \<times> 'w \<Rightarrow> scheduler \<times> 'w" where
  "run_task task_func sw =
     (case sw of (s, w) \<Rightarrow>
        (case task_func w of
           (Inr success, w') \<Rightarrow>
             (if success then (s\<lparr>retry_scheduled := False\<rparr>, w')
              else (schedule_retry s, w'))
         | (Inl e, w') \<Rightarrow> (schedule_retry s, w')))"

text \<open>
  \<open>_retry_once\<close>: clears the flag, calls \<open>task_func\<close> once, swallows its exception and
  returns \<open>schedule.CancelJob\<close> whatever happened. The result type has one value only,
  so the model returns the state.
\<close>

definition retry_once :: "'w task_func \<Rightarrow> scheduler \<times> 'w \<Rightarrow> scheduler \<times> 'w" where
  "retry_once task_func sw =
     (case sw of (s, w) \<Rightarrow>
        (let s1 = s\<lparr>retry_scheduled := False\<rparr>
         in case task_func w of
              (Inr success, w') \<Rightarrow> (s1, w')
            | (Inl e, w') \<Rightarrow> (s1, w')))"

text \<open>\<open>run_now\<close>: the manual trigger; it calls \<open>run_task\<close>.\<close>

definition run_now :: "'w task_func \<Rightarrow> scheduler \<times> 'w \<Rightarrow> scheduler \<times> 'w" where
  "run_now task_func sw = run_task task_func sw"

text \<open>
  \<open>start\<close> registers the Monday job and then loops over \<open>schedule.run_pending()\<close> for ever.
  The loop is modelled by the events it can meet, in any order: the Monday job is due, a
  retry job is due, or somebody calls \<open>run_now\<close>. A job that is due runs only when it is in
  the job list; a job whose function returns \<open>CancelJob\<close> is removed from the list by
  \<open>schedule\<close> after the call.
\<close>

definition start_register :: "scheduler \<Rightarrow> scheduler" where
  "start_register s = s\<lparr>jobs := jobs s @ [Job_run_task]\<rparr>"

datatype event = Weekly_due | Retry_due | Manual_run_now

definition fire_retry :: "'w task_func \<Rightarrow> scheduler \<times> 'w \<Rightarrow> scheduler \<times> 'w" where
  "fire_retry task_func sw =
     (case retry_once task_func sw of
        (s', w') \<Rightarrow> (s'\<lparr>jobs := remove1 Job_retry_once (jobs s')\<rparr>, w'))"

fun step :: "'w task_func \<Rightarrow> event \<Rightarrow> scheduler \<times> 'w \<Rightarrow> scheduler \<times> 'w" where
  "step task_func Weekly_due sw =
     (if Job_run_task \<in> set (jobs (fst sw)) then run_task task_func sw else sw)"
| "step task_func Retry_due sw =
     (if Job_retry_once \<in> set (jobs (fst sw)) then fire_retry task_func sw else sw)"
| "step task_func Manual_run_now sw = run_now task_func sw"

fun run_events :: "'w task_func \<Rightarrow> event list \<Rightarrow> scheduler \<times> 'w \<Rightarrow> scheduler \<times> 'w" where
  "run_events task_func [] sw = sw"
| "run_events task_func (ev # evs) sw = run_events task_func evs (step task_func ev sw)"

text \<open>The number of retry jobs waiting in the job list.\<close>

definition pending_retries :: "scheduler \<Rightarrow> nat" where
  "pending_retries s = count_list (jobs s) Job_retry_once"

text \<open>
  A task whose results are read from a script, one per call (True when the script is
  used up): the world is the rest of the script.
\<close>

fun scripted_task :: "(exn + bool) list task_func" where
  "scripted_task [] = (Inr True, [])"
| "scripted_task (r # rs) = (r, rs)"

section \<open>scheduler.py: calculate_next_monday_830_cdt\<close>

text \<open>
  A \<open>datetime\<close> in the fixed zone: the day as its proleptic Gregorian ordinal
  (\<open>date.toordinal()\<close>, day 1 is Monday 0001-01-01) and the wall-clock fields.
  \<open>weekday()\<close> is 0 on Monday. Adding a \<open>timedelta\<close> of whole days moves the ordinal and
  raises OverflowError beyond \<open>datetime.max\<close> (9999-12-31, ordinal 3652059).
\<close>

record datetime =
  ordinal :: nat
  hour :: nat
  minute :: nat
  second :: nat
  microsecond :: nat

definition MAXORDINAL :: nat where
  "MAXORDINAL = 3652059"

definition weekday :: "datetime \<Rightarrow> nat" where
  "weekday dt = (ordinal dt + 6) mod 7"

definition add_days :: "datetime \<Rightarrow> nat \<Rightarrow> exn + datetime" where
  "add_days dt n =
     (if ordinal dt + n \<le> MAXORDINAL then Inr (dt\<lparr>ordinal := ordinal dt + n\<rparr>)
      else Inl (OtherError ''date value out of range''))"

text \<open>The argument is the reading \<open>datetime.now(CDT)\<close>.\<close>

definition calculate_next_monday_830_cdt :: "datetime \<Rightarrow> exn + datetime" where
  "calculate_next_monday_830_cdt now =
     (let days_until_monday = (7 - weekday now) mod 7;
          days_until_monday =
            (if days_until_monday = 0 \<and> hour now \<ge> 9 then 7 else days_until_monday)
      in case add_days now days_until_monday of
           Inl e \<Rightarrow> Inl e
         | Inr next_monday \<Rightarrow>
             Inr (next_monday\<lparr>hour := 8, minute := 30, second := 0, microsecond := 0\<rparr>))"

text \<open>The order of two datetimes of the same zone: field by field.\<close>

definition dt_less :: "datetime \<Rightarrow> datetime \<Rightarrow> bool" where
  "dt_less a b =
     (ordinal a < ordinal b \<or> (ordinal a = ordinal b \<and>
     (hour a < hour b \<or> (hour a = hour b \<and>
     (minute a < minute b \<or> (minute a = minute b \<and>
     (second a < second b \<or> (second a = second b \<and>
      microsecond a < microsecond b))))))))"

section \<open>Sample inputs\<close>

text \<open>
  A small outside world for concrete runs: the world counts the orders the broker has
  accepted; the broker rejects every order for TSLA and fills the others at 190.5.
\<close>

definition sample_decision :: "string \<Rightarrow> string \<Rightarrow> int \<Rightarrow> investment_decision" where
  "sample_decision t a n =
     \<lparr>d_company = t, d_ticker = t, d_action = a, d_shares = n, d_rationale = [],
      d_confidence = 1 / 2, d_risk_assessment = []\<rparr>"

definition sample_order :: order where
  "sample_order = \<lparr>o_id = ''order-1'', o_filled_avg_price = Some ''190.5''\<rparr>"

definition sample_env ::
  "bool \<Rightarrow> (exn + gpt_response) \<Rightarrow> investment_decision list \<Rightarrow> nat adapters"
where
  "sample_env is_open research ds =
     \<lparr>environ = [''ALPACA_API_KEY'' \<mapsto> ''key'', ''ALPACA_API_SECRET'' \<mapsto> ''secret''],
      py_float = (\<lambda>s. if s = ''190.5'' then Some (381 / 2)
                       else if s = ''1000'' then Some 1000 else None),
      get_clock = (\<lambda>c w. (Inr is_open, w)),
      get_account = (\<lambda>c w. (Inr \<lparr>ra_cash = Some ''1000'', ra_portfolio_value = Some ''1000'',
                                   ra_buying_power = Some ''1000''\<rparr>, w)),
      get_all_positions = (\<lambda>c w. (Inr [], w)),
      submit_order = (\<lambda>c t n w. if t = ''TSLA''
                                  then (Inl (OtherError ''insufficient buying power''), w)
                                  else (Inr sample_order, Suc w)),
      research_companies = (\<lambda>w. (research, w)),
      analyze_fundamentals = (\<lambda>ps w. (Inr \<lparr>fundamentals = []\<rparr>, w)),
      make_investment_decision =
        (\<lambda>ps fs cap pos w.
           (Inr \<lparr>decisions = ds, portfolio_risk_analysis = [], available_capital = cap\<rparr>, w))\<rparr>"

definition sample_client :: client where
  "sample_client = \<lparr>api_key = ''key'', api_secret = ''secret'', paper = True\<rparr>"

definition sample_picks :: gpt_response where
  "sample_picks = \<lparr>picks = [\<lparr>cp_company = ''Apple'', cp_ticker = ''AAPL'',
                              cp_rationale = [], cp_news_summary = []\<rparr>]\<rparr>"

definition sample_decisions :: "investment_decision list" where
  "sample_decisions =
     [sample_decision ''AAPL'' ''BUY'' 2, sample_decision ''MSFT'' ''HOLD'' 0,
      sample_decision ''TSLA'' ''BUY'' 1, sample_decision ''NVDA'' ''BUY'' 3]"

section \<open>Properties of the scheduler\<close>

lemma retry_once_result:
  "retry_once task_func (s, w) = (s\<lparr>retry_scheduled := False\<rparr>, snd (task_func w))"
  by (simp add: retry_once_def split: prod.splits sum.splits)

text \<open>
  C5. From the state with a retry armed (the flag set, one retry job in the job list),
  the firing retry calls the task exactly once (the world afterwards is the world after
  one call), leaves the flag cleared and no retry job behind, and registers nothing
  new: this holds for every outcome of the task, a failure and an exception included.
\<close>

theorem retry_fires_once_then_awaits:
  assumes "retry_scheduled s" and "pending_retries s = 1"
  shows "step task_func Retry_due (s, w) =
           (s\<lparr>retry_scheduled := False, jobs := remove1 Job_retry_once (jobs s)\<rparr>,
            snd (task_func w))
         \<and> \<not> retry_scheduled (fst (step task_func Retry_due (s, w)))
         \<and> pending_retries (fst (step task_func Retry_due (s, w))) = 0
         \<and> count_list (jobs (fst (step task_func Retry_due (s, w)))) Job_run_task
             = count_list (jobs s) Job_run_task"
proof -
  from assms(2) have mem: "Job_retry_once \<in> set (jobs s)"
    by (metis pending_retries_def count_list_0_iff zero_neq_one)
  have st: "step task_func Retry_due (s, w) =
           (s\<lparr>retry_scheduled := False, jobs := remove1 Job_retry_once (jobs s)\<rparr>,
            snd (task_func w))"
    using mem by (simp add: fire_retry_def retry_once_result)
  have cnt: "count_list (remove1 Job_retry_once xs) Job_retry_once
               = count_list xs Job_retry_once - 1
             \<and> count_list (remove1 Job_retry_once xs) Job_run_task
               = count_list xs Job_run_task" for xs
    by (induction xs) auto
  from assms(2) have "count_list (jobs s) Job_retry_once = 1"
    by (simp add: pending_retries_def)
  then show ?thesis
    unfolding st pending_retries_def by (simp add: cnt)
qed

theorem retry_fires_once_then_awaits_witness:
  "retry_scheduled (schedule_retry (start_register init_scheduler))
   \<and> pending_retries (schedule_retry (start_register init_scheduler)) = 1
   \<and> step scripted_task Retry_due
        (schedule_retry (start_register init_scheduler), [Inr False, Inr True])
      = (\<lparr>retry_scheduled = False, jobs = [Job_run_task]\<rparr>, [Inr True])"
proof -
  have a: "retry_scheduled (schedule_retry (start_register init_scheduler))"
    by (simp add: schedule_retry_def start_register_def init_scheduler_def)
  have b: "pending_retries (schedule_retry (start_register init_scheduler)) = 1"
    by (simp add: pending_retries_def schedule_retry_def start_register_def init_scheduler_def)
  show ?thesis
    using retry_fires_once_then_awaits [OF a b, of scripted_task "[Inr False, Inr True]"] a b
    by (simp add: schedule_retry_def start_register_def init_scheduler_def)
qed

lemma schedule_retry_guard: "retry_scheduled s \<Longrightarrow> schedule_retry s = s"
  by (simp add: schedule_retry_def)

lemma run_task_result:
  "run_task task_func (s, w) =
     (if fst (task_func w) = Inr True then s\<lparr>retry_scheduled := False\<rparr> else schedule_retry s,
      snd (task_func w))"
  by (auto simp: run_task_def split: prod.splits sum.splits)

text \<open>
  C2 fails on the code. A failed run registers a retry job; a successful \<open>run_task\<close>
  then clears the flag but leaves the job in the job list; the next failed run passes
  the guard of \<open>_schedule_retry\<close> and registers a second retry job while the first is
  still waiting.
\<close>

theorem retry_armed_twice_after_fail_success_fail:
  "run_events scripted_task [Manual_run_now, Manual_run_now]
      (init_scheduler, [Inr False, Inr True, Inr False])
     = (\<lparr>retry_scheduled = False, jobs = [Job_retry_once]\<rparr>, [Inr False])
   \<and> run_events scripted_task [Manual_run_now, Manual_run_now, Manual_run_now]
      (init_scheduler, [Inr False, Inr True, Inr False])
     = (\<lparr>retry_scheduled = True, jobs = [Job_retry_once, Job_retry_once]\<rparr>, [])
   \<and> pending_retries (fst (run_events scripted_task
        [Manual_run_now, Manual_run_now, Manual_run_now]
        (init_scheduler, [Inr False, Inr True, Inr False]))) = 2"
  by (simp add: run_now_def run_task_result schedule_retry_def init_scheduler_def
        pending_retries_def)

text \<open>
  C4 (as the code has it). \<open>run_now\<close> is \<open>run_task\<close>: the task is called once; afterwards
  the flag is clear when the task returned True and set when it returned False or
  raised, and a retry job is registered when the task did not succeed and the flag was
  clear before. The scheduler stores no last outcome.
\<close>

theorem run_now_is_run_task:
  "run_now task_func (s, w) = run_task task_func (s, w)
   \<and> snd (run_now task_func (s, w)) = snd (task_func w)
   \<and> retry_scheduled (fst (run_now task_func (s, w))) = (fst (task_func w) \<noteq> Inr True)
   \<and> jobs (fst (run_now task_func (s, w))) =
       (if fst (task_func w) \<noteq> Inr True \<and> \<not> retry_scheduled s
        then jobs s @ [Job_retry_once] else jobs s)"
  by (simp add: run_now_def run_task_result schedule_retry_def)

theorem run_now_is_run_task_witness:
  "run_now scripted_task (init_scheduler, [Inl (OtherError ''boom''), Inr True])
     = (\<lparr>retry_scheduled = True, jobs = [Job_retry_once]\<rparr>, [Inr True])
   \<and> retry_scheduled (fst (run_now scripted_task
        (init_scheduler, [Inl (OtherError ''boom''), Inr True])))
   \<and> jobs (fst (run_now scripted_task
        (init_scheduler, [Inl (OtherError ''boom''), Inr True]))) = [Job_retry_once]"
  using run_now_is_run_task [of scripted_task init_scheduler "[Inl (OtherError ''boom''), Inr True]"]
  by (simp add: run_task_result schedule_retry_def init_scheduler_def)

text \<open>
  C4 as stated fails: \<open>run_now\<close> with a failing task on a fresh scheduler sets the flag.
\<close>

theorem run_now_changes_mode_counterexample:
  "run_now scripted_task (init_scheduler, [Inr False])
     = (\<lparr>retry_scheduled = True, jobs = [Job_retry_once]\<rparr>, [])
   \<and> retry_scheduled (fst (run_now scripted_task (init_scheduler, [Inr False])))
       \<noteq> retry_scheduled init_scheduler"
  by (simp add: run_now_def run_task_result schedule_retry_def init_scheduler_def)

section \<open>Properties of calculate_next_monday_830_cdt\<close>

lemma back_to_monday: "w < 7 \<Longrightarrow> (w + (7 - w) mod 7) mod 7 = (0::nat)"
  by (cases "w = 0") auto

lemma weekday_add_days: "(n + d + 6) mod 7 = ((n + 6) mod 7 + d) mod (7::nat)"
  by (metis add.commute add.left_commute mod_add_left_eq)

lemma calculate_unfold:
  "calculate_next_monday_830_cdt now =
     (case add_days now (if (7 - weekday now) mod 7 = 0 \<and> hour now \<ge> 9 then 7
                         else (7 - weekday now) mod 7) of
        Inl e \<Rightarrow> Inl e
      | Inr next_monday \<Rightarrow>
          Inr (next_monday\<lparr>hour := 8, minute := 30, second := 0, microsecond := 0\<rparr>))"
  by (simp add: calculate_next_monday_830_cdt_def Let_def)

text \<open>
  C10 (as the code has it). For a call time at least seven days before the last
  representable day, the function returns a Monday at 08:30:00.000000. Called on a
  Monday from 08:30 up to 09:00, it returns 08:30 of that same day, which is never
  later than the call time, and is earlier than it except at 08:30:00.000000 sharp,
  where it is the call time itself.
\<close>

theorem next_monday_830:
  assumes "ordinal now + 7 \<le> MAXORDINAL"
  shows "\<exists>r. calculate_next_monday_830_cdt now = Inr r
      \<and> weekday r = 0 \<and> hour r = 8 \<and> minute r = 30 \<and> second r = 0 \<and> microsecond r = 0
      \<and> (weekday now = 0 \<and> hour now = 8 \<and> 30 \<le> minute now \<longrightarrow>
           ordinal r = ordinal now \<and> \<not> dt_less now r
           \<and> (dt_less r now \<longleftrightarrow> 30 < minute now \<or> 0 < second now \<or> 0 < microsecond now))"
proof -
  define d0 where "d0 = (7 - weekday now) mod 7"
  define d where "d = (if d0 = 0 \<and> hour now \<ge> 9 then 7 else d0)"
  define r where "r = now\<lparr>ordinal := ordinal now + d, hour := 8, minute := 30,
                           second := 0, microsecond := 0\<rparr>"
  have d0: "d0 < 7" by (simp add: d0_def)
  then have le: "d \<le> 7" by (simp add: d_def)
  have "weekday now < 7" by (simp add: weekday_def)
  then have "(weekday now + d0) mod 7 = 0"
    unfolding d0_def by (rule back_to_monday)
  then have "(weekday now + d) mod 7 = 0"
    by (auto simp: d_def)
  then have wk: "weekday r = 0"
    by (simp add: weekday_add_days weekday_def r_def)
  from le assms have ok: "ordinal now + d \<le> MAXORDINAL" by linarith
  have "calculate_next_monday_830_cdt now =
          (case add_days now d of Inl e \<Rightarrow> Inl e
           | Inr next_monday \<Rightarrow>
          Inr (next_monday\<lparr>hour := 8, minute := 30, second := 0, microsecond := 0\<rparr>))"
    unfolding calculate_unfold d_def d0_def ..
  also have "add_days now d = Inr (now\<lparr>ordinal := ordinal now + d\<rparr>)"
    using ok by (simp add: add_days_def)
  finally have eq: "calculate_next_monday_830_cdt now = Inr r"
    by (simp add: r_def)
  have fields: "hour r = 8 \<and> minute r = 30 \<and> second r = 0 \<and> microsecond r = 0"
    by (simp add: r_def)
  have window: "weekday now = 0 \<and> hour now = 8 \<and> 30 \<le> minute now \<longrightarrow>
           ordinal r = ordinal now \<and> \<not> dt_less now r
           \<and> (dt_less r now \<longleftrightarrow> 30 < minute now \<or> 0 < second now \<or> 0 < microsecond now)"
  proof
    assume a: "weekday now = 0 \<and> hour now = 8 \<and> 30 \<le> minute now"
    then have "d = 0" by (simp add: d_def d0_def)
    then have o: "ordinal r = ordinal now" by (simp add: r_def)
    have 1: "\<not> dt_less now r"
      using a o fields by (simp add: dt_less_def)
    have 2: "dt_less r now \<longleftrightarrow> 30 < minute now \<or> 0 < second now \<or> 0 < microsecond now"
      using a o fields by (simp add: dt_less_def) linarith
    from o 1 2 show "ordinal r = ordinal now \<and> \<not> dt_less now r
           \<and> (dt_less r now \<longleftrightarrow> 30 < minute now \<or> 0 < second now \<or> 0 < microsecond now)"
      by (intro conjI)
  qed
  show ?thesis
    by (rule exI [of _ r]) (intro conjI eq wk window; simp add: fields)
qed

theorem next_monday_830_witness:
  "ordinal \<lparr>ordinal = 738886, hour = 8, minute = 45, second = 10, microsecond = 500000\<rparr> + 7
     \<le> MAXORDINAL
   \<and> (\<exists>r. calculate_next_monday_830_cdt
            \<lparr>ordinal = 738886, hour = 8, minute = 45, second = 10, microsecond = 500000\<rparr> = Inr r
        \<and> weekday r = 0 \<and> hour r = 8 \<and> minute r = 30 \<and> second r = 0 \<and> microsecond r = 0
        \<and> ordinal r = 738886
        \<and> dt_less r \<lparr>ordinal = 738886, hour = 8, minute = 45, second = 10,
                      microsecond = 500000\<rparr>)"
proof -
  let ?now = "\<lparr>ordinal = 738886, hour = 8, minute = 45, second = 10, microsecond = 500000\<rparr>"
  have h: "ordinal ?now + 7 \<le> MAXORDINAL"
    by (simp add: MAXORDINAL_def)
  have w: "weekday ?now = 0 \<and> hour ?now = 8 \<and> 30 \<le> minute ?now"
    by (simp add: weekday_def)
  from next_monday_830 [OF h] w h show ?thesis
    by auto
qed

text \<open>
  C10 as stated fails on Monday 2024-01-01 at 08:30:00.000000: the value returned is the
  call time, not an earlier one. It also fails on Friday 9999-12-31, where the Monday
  after lies beyond the last representable day and the addition raises.
\<close>

theorem next_monday_830_not_earlier_counterexample:
  "weekday \<lparr>ordinal = 738886, hour = 8, minute = 30, second = 0, microsecond = 0\<rparr> = 0
   \<and> calculate_next_monday_830_cdt
       \<lparr>ordinal = 738886, hour = 8, minute = 30, second = 0, microsecond = 0\<rparr>
     = Inr \<lparr>ordinal = 738886, hour = 8, minute = 30, second = 0, microsecond = 0\<rparr>
   \<and> \<not> dt_less \<lparr>ordinal = 738886, hour = 8, minute = 30, second = 0, microsecond = 0\<rparr>
         \<lparr>ordinal = 738886, hour = 8, minute = 30, second = 0, microsecond = 0\<rparr>
   \<and> calculate_next_monday_830_cdt
       \<lparr>ordinal = 3652059, hour = 10, minute = 0, second = 0, microsecond = 0\<rparr>
     = Inl (OtherError ''date value out of range'')"
  by (simp add: calculate_next_monday_830_cdt_def weekday_def add_days_def MAXORDINAL_def
        dt_less_def)

section \<open>Lemmas about the execution loop and the pipeline\<close>

lemma invoke_log: "invoke c f st = (r, st') \<Longrightarrow> fst st' = fst st @ [c]"
  by (auto simp: invoke_def split: prod.splits)

lemma attempt_log:
  "attempt env c d st = (r, st') \<Longrightarrow> fst st' = fst st @ [Submit_order (d_ticker d) (d_shares d)]"
  by (auto simp: attempt_def dest: invoke_log split: prod.splits sum.splits option.splits if_splits)

lemma execute_one_log:
  "execute_one env c d st = (r, st') \<Longrightarrow> fst st' = fst st @ [Submit_order (d_ticker d) (d_shares d)]"
  by (auto simp: execute_one_def dest: attempt_log split: prod.splits sum.splits)

lemma execute_one_key:
  "execute_one env c d st = (r, st') \<Longrightarrow>
     tr_ticker r = d_ticker d \<and> tr_shares r = d_shares d \<and> tr_action r = ''BUY''"
  by (auto simp: execute_one_def filled_result_def failed_result_def split: prod.splits sum.splits)

lemma execute_loop_acc:
  "execute_loop env c ds acc st =
     (acc @ fst (execute_loop env c ds [] st), snd (execute_loop env c ds [] st))"
proof (induction ds arbitrary: acc st)
  case Nil
  show ?case by simp
next
  case (Cons d ds)
  show ?case
  proof (cases "d_action d \<noteq> ''BUY'' \<or> d_shares d \<le> 0")
    case True
    then show ?thesis using Cons.IH [of acc st] by simp
  next
    case False
    obtain r st1 where one: "execute_one env c d st = (r, st1)"
      by (cases "execute_one env c d st")
    show ?thesis
      using False one Cons.IH [of "acc @ [r]" st1] Cons.IH [of "[r]" st1] by simp
  qed
qed

lemma execute_loop_append:
  "execute_loop env c (ds1 @ ds2) acc st =
     (case execute_loop env c ds1 acc st of (rs, st1) \<Rightarrow> execute_loop env c ds2 rs st1)"
proof (induction ds1 arbitrary: acc st)
  case Nil
  show ?case by simp
next
  case (Cons d ds1)
  show ?case
    by (cases "execute_one env c d st") (simp add: Cons.IH)
qed

lemma execute_loop_skip:
  assumes "\<not> eligible d"
  shows "execute_loop env c (ds1 @ d # ds2) acc st = execute_loop env c (ds1 @ ds2) acc st"
  using assms by (simp add: execute_loop_append eligible_def split: prod.splits)

lemma execute_loop_keys:
  "map (\<lambda>r. (tr_ticker r, tr_shares r, tr_action r)) (fst (execute_loop env c ds acc st)) =
     map (\<lambda>r. (tr_ticker r, tr_shares r, tr_action r)) acc
     @ map (\<lambda>d. (d_ticker d, d_shares d, ''BUY'')) (filter eligible ds)"
proof (induction ds arbitrary: acc st)
  case Nil
  show ?case by simp
next
  case (Cons d ds)
  show ?case
  proof (cases "eligible d")
    case False
    then show ?thesis using Cons.IH [of acc st] by (simp add: eligible_def)
  next
    case True
    obtain r st1 where one: "execute_one env c d st = (r, st1)"
      by (cases "execute_one env c d st")
    from True have "\<not> (d_action d \<noteq> ''BUY'' \<or> d_shares d \<le> 0)"
      by (simp add: eligible_def)
    then show ?thesis
      using True one execute_one_key [OF one] Cons.IH [of "acc @ [r]" st1] by simp
  qed
qed

lemma execute_loop_log:
  "fst (snd (execute_loop env c ds acc st)) =
     fst st @ map (\<lambda>d. Submit_order (d_ticker d) (d_shares d)) (filter eligible ds)"
proof (induction ds arbitrary: acc st)
  case Nil
  show ?case by simp
next
  case (Cons d ds)
  show ?case
  proof (cases "eligible d")
    case False
    then show ?thesis using Cons.IH [of acc st] by (simp add: eligible_def)
  next
    case True
    obtain r st1 where one: "execute_one env c d st = (r, st1)"
      by (cases "execute_one env c d st")
    from True have "\<not> (d_action d \<noteq> ''BUY'' \<or> d_shares d \<le> 0)"
      by (simp add: eligible_def)
    then show ?thesis
      using True one execute_one_log [OF one] Cons.IH [of "acc @ [r]" st1] by simp
  qed
qed

lemma eligible_iff: "eligible d \<longleftrightarrow> d_action d = ''BUY'' \<and> 0 < d_shares d"
  by (auto simp: eligible_def)

lemma check_results_all:
  "check_results rs a \<longleftrightarrow> a \<and> (\<forall>r \<in> set rs. tr_success r)"
  by (induction rs arbitrary: a) auto

lemma summarise_all: "summarise rs \<longleftrightarrow> (\<forall>r \<in> set rs. tr_success r)"
  by (cases rs) (auto simp: summarise_def check_results_all)

lemma summarise_count: "summarise rs \<longleftrightarrow> length (filter (\<lambda>r. \<not> tr_success r) rs) = 0"
  by (auto simp: summarise_all filter_empty_conv)

lemma check_market_open_client:
  "check_market_open env st = (Inr b, st0) \<Longrightarrow> \<exists>c. get_alpaca_client env = Inr c"
  by (auto simp: check_market_open_def split: sum.splits)

lemma check_market_open_log:
  "check_market_open env st = (Inr b, st0) \<Longrightarrow> fst st0 = fst st @ [Get_clock]"
  by (auto simp: check_market_open_def dest: invoke_log split: sum.splits)

lemma get_account_info_log:
  assumes "get_account_info env st = (Inr info, st1)"
  shows "fst st1 = fst st @ [Get_account, Get_all_positions]"
proof -
  from assms obtain c where c: "get_alpaca_client env = Inr c"
    by (auto simp: get_account_info_def split: sum.splits)
  from assms c obtain account sta where a: "invoke Get_account (get_account env c) st = (Inr account, sta)"
    by (auto simp: get_account_info_def split: sum.splits prod.splits)
  from assms c a obtain ps where p: "invoke Get_all_positions (get_all_positions env c) sta = (Inr ps, st1)"
    by (auto simp: get_account_info_def split: sum.splits prod.splits)
  from invoke_log [OF a] invoke_log [OF p] show ?thesis by simp
qed

lemma execute_trades_client:
  "get_alpaca_client env = Inr c \<Longrightarrow>
     execute_trades env ds st =
       (Inr (fst (execute_loop env c ds [] st)), snd (execute_loop env c ds [] st))"
  by (simp add: execute_trades_def split: prod.splits)

lemma pipeline_to_execution:
  assumes "check_market_open env st = (Inr True, st0)"
      and "get_account_info env st0 = (Inr info, st1)"
      and "invoke Research_companies (research_companies env) st1 = (Inr gpt, st2)"
      and "invoke Analyze_fundamentals (analyze_fundamentals env (picks gpt)) st2
             = (Inr claude, st3)"
      and "invoke Make_investment_decision
             (make_investment_decision env (picks gpt) (fundamentals claude)
                (cash info) (positions info)) st3 = (Inr grok, st4)"
  shows "run_trading_pipeline env st =
           (case execute_trades env (decisions grok) st4 of
              (Inl e, st5) \<Rightarrow> (False, st5)
            | (Inr trade_results, st5) \<Rightarrow> (summarise trade_results, st5))"
  using assms by (simp add: run_trading_pipeline_def)

section \<open>The sample world, evaluated\<close>

lemma sample_client_ok: "get_alpaca_client (sample_env b r ds) = Inr sample_client"
  by (simp add: get_alpaca_client_def sample_env_def sample_client_def lower_char_def)

lemma sample_market:
  "check_market_open (sample_env b r ds) (tr, w) = (Inr b, (tr @ [Get_clock], w))"
  by (simp add: check_market_open_def sample_client_ok invoke_def) (simp add: sample_env_def)

lemma sample_account:
  "get_account_info (sample_env b r ds) (tr, w) =
     (Inr \<lparr>cash = 1000, portfolio_value = 1000, buying_power = 1000, positions = Map.empty\<rparr>,
      (tr @ [Get_account, Get_all_positions], w))"
  by (simp add: get_account_info_def sample_client_ok)
     (simp add: sample_env_def invoke_def bind_exn_def to_float_def)

lemma sample_research:
  "invoke Research_companies (research_companies (sample_env b r ds)) (tr, w) =
     (r, (tr @ [Research_companies], w))"
  by (simp add: invoke_def sample_env_def)

lemma sample_analysis:
  "invoke Analyze_fundamentals (analyze_fundamentals (sample_env b r ds) ps) (tr, w) =
     (Inr \<lparr>fundamentals = []\<rparr>, (tr @ [Analyze_fundamentals], w))"
  by (simp add: invoke_def sample_env_def)

lemma sample_decide:
  "invoke Make_investment_decision
     (make_investment_decision (sample_env b r ds) ps fs cap pos) (tr, w) =
     (Inr \<lparr>decisions = ds, portfolio_risk_analysis = [], available_capital = cap\<rparr>,
      (tr @ [Make_investment_decision], w))"
  by (simp add: invoke_def sample_env_def)

lemma sample_attempt_ok:
  "t \<noteq> ''TSLA'' \<Longrightarrow>
   attempt (sample_env b r ds) sample_client (sample_decision t a n) (tr, w) =
     (Inr (sample_order, 381 / 2), (tr @ [Submit_order t n], Suc w))"
  by (simp add: attempt_def invoke_def sample_env_def sample_decision_def sample_order_def)

lemma sample_attempt_fail:
  "attempt (sample_env b r ds) sample_client (sample_decision ''TSLA'' a n) (tr, w) =
     (Inl (OtherError ''insufficient buying power''), (tr @ [Submit_order ''TSLA'' n], w))"
  by (simp add: attempt_def invoke_def sample_env_def sample_decision_def)

lemma sample_decision_sel:
  "d_ticker (sample_decision t a n) = t"
  "d_action (sample_decision t a n) = a"
  "d_shares (sample_decision t a n) = n"
  by (simp_all add: sample_decision_def)

lemma sample_execute_one_ok:
  "t \<noteq> ''TSLA'' \<Longrightarrow>
   execute_one (sample_env b r ds) sample_client (sample_decision t a n) (tr, w) =
     (filled_result (sample_decision t a n) sample_order (381 / 2),
      (tr @ [Submit_order t n], Suc w))"
  by (simp add: execute_one_def sample_attempt_ok)

lemma sample_execute_one_fail:
  "execute_one (sample_env b r ds) sample_client (sample_decision ''TSLA'' a n) (tr, w) =
     (failed_result (sample_decision ''TSLA'' a n) (OtherError ''insufficient buying power''),
      (tr @ [Submit_order ''TSLA'' n], w))"
  by (simp add: execute_one_def sample_attempt_fail)

lemma sample_execute_loop:
  "execute_loop (sample_env b r ds) sample_client sample_decisions [] ([], 0) =
     ([filled_result (sample_decision ''AAPL'' ''BUY'' 2) sample_order (381 / 2),
       failed_result (sample_decision ''TSLA'' ''BUY'' 1) (OtherError ''insufficient buying power''),
       filled_result (sample_decision ''NVDA'' ''BUY'' 3) sample_order (381 / 2)],
      ([Submit_order ''AAPL'' 2, Submit_order ''TSLA'' 1, Submit_order ''NVDA'' 3], 2))"
  by (simp add: sample_decisions_def sample_decision_sel sample_execute_one_ok
        sample_execute_one_fail)

lemma sample_filter:
  "filter (\<lambda>d. d_action d = ''BUY'' \<and> 0 < d_shares d) sample_decisions =
     [sample_decision ''AAPL'' ''BUY'' 2, sample_decision ''TSLA'' ''BUY'' 1,
      sample_decision ''NVDA'' ''BUY'' 3]"
  by (simp add: sample_decisions_def sample_decision_sel)

section \<open>Properties of the pipeline\<close>

text \<open>
  C1 (as the code has it). When the market is closed, \<open>run_trading_pipeline\<close> returns
  False after the clock query alone: the run state it leaves is the one right after
  that query, so no later stage was called. The scheduler handles this False as any
  failed run: \<open>run_task\<close> goes to \<open>_schedule_retry\<close>, the flag is set afterwards, and a
  retry job is registered when the flag was clear before.
\<close>

theorem market_closed_returns_false_and_arms_retry:
  assumes "check_market_open env st = (Inr False, st0)"
  shows "run_trading_pipeline env st = (False, st0)
       \<and> fst st0 = fst st @ [Get_clock]
       \<and> run_task (pipeline_task env) (s, st) = (schedule_retry s, st0)
       \<and> retry_scheduled (fst (run_task (pipeline_task env) (s, st)))
       \<and> pending_retries (fst (run_task (pipeline_task env) (s, st))) =
           (if retry_scheduled s then pending_retries s else pending_retries s + 1)"
proof -
  have p: "run_trading_pipeline env st = (False, st0)"
    using assms by (simp add: run_trading_pipeline_def)
  have r: "run_task (pipeline_task env) (s, st) = (schedule_retry s, st0)"
    by (simp add: run_task_def pipeline_task_def p)
  show ?thesis
    unfolding r p using check_market_open_log [OF assms]
    by (simp add: schedule_retry_def pending_retries_def)
qed

theorem market_closed_returns_false_and_arms_retry_witness:
  "check_market_open (sample_env False (Inr sample_picks) []) ([], 0) = (Inr False, ([Get_clock], 0))
   \<and> run_trading_pipeline (sample_env False (Inr sample_picks) []) ([], 0) = (False, ([Get_clock], 0))
   \<and> run_task (pipeline_task (sample_env False (Inr sample_picks) [])) (init_scheduler, ([], 0))
       = (\<lparr>retry_scheduled = True, jobs = [Job_retry_once]\<rparr>, ([Get_clock], 0))"
proof -
  have h: "check_market_open (sample_env False (Inr sample_picks) []) ([], 0)
             = (Inr False, ([Get_clock], 0))"
    using sample_market [of False "Inr sample_picks" "[]" "[]" 0] by simp
  show ?thesis
    using market_closed_returns_false_and_arms_retry [OF h, of init_scheduler] h
    by (simp add: schedule_retry_def init_scheduler_def)
qed

text \<open>
  C1 as stated fails: with the market closed, \<open>run_task\<close> on a fresh scheduler sets the
  flag and registers a retry job.
\<close>

theorem market_closed_arms_retry_counterexample:
  "check_market_open (sample_env False (Inr sample_picks) []) ([], 0) = (Inr False, ([Get_clock], 0))
   \<and> run_task (pipeline_task (sample_env False (Inr sample_picks) [])) (init_scheduler, ([], 0))
       = (\<lparr>retry_scheduled = True, jobs = [Job_retry_once]\<rparr>, ([Get_clock], 0))
   \<and> retry_scheduled (fst (run_task (pipeline_task (sample_env False (Inr sample_picks) []))
         (init_scheduler, ([], 0)))) \<noteq> retry_scheduled init_scheduler
   \<and> pending_retries (fst (run_task (pipeline_task (sample_env False (Inr sample_picks) []))
         (init_scheduler, ([], 0)))) = 1"
proof -
  have h: "check_market_open (sample_env False (Inr sample_picks) []) ([], 0)
             = (Inr False, ([Get_clock], 0))"
    using sample_market [of False "Inr sample_picks" "[]" "[]" 0] by simp
  have p: "run_trading_pipeline (sample_env False (Inr sample_picks) []) ([], 0)
             = (False, ([Get_clock], 0))"
    by (simp add: run_trading_pipeline_def h)
  have r: "run_task (pipeline_task (sample_env False (Inr sample_picks) [])) (init_scheduler, ([], 0))
       = (\<lparr>retry_scheduled = True, jobs = [Job_retry_once]\<rparr>, ([Get_clock], 0))"
    by (simp add: run_task_def pipeline_task_def p schedule_retry_def init_scheduler_def)
  show ?thesis
    unfolding r using h by (simp add: init_scheduler_def pending_retries_def)
qed

text \<open>
  C7. When the research stage raises (a \<open>RateLimitError\<close> or any other exception), the
  pipeline returns False, and the calls of the whole run are the clock query, the two
  account queries and the research call: the analysis, the decision and every order
  submission are absent, so no trade result is produced.
\<close>

theorem research_failure_stops_pipeline:
  assumes "check_market_open env st = (Inr True, st0)"
      and "get_account_info env st0 = (Inr info, st1)"
      and "invoke Research_companies (research_companies env) st1 = (Inl e, st2)"
  shows "run_trading_pipeline env st = (False, st2)
       \<and> fst st2 = fst st @ [Get_clock, Get_account, Get_all_positions, Research_companies]"
proof -
  have "run_trading_pipeline env st = (False, st2)"
    using assms by (simp add: run_trading_pipeline_def split: exn.splits)
  moreover have "fst st2 = fst st @ [Get_clock, Get_account, Get_all_positions, Research_companies]"
    using check_market_open_log [OF assms(1)] get_account_info_log [OF assms(2)]
      invoke_log [OF assms(3)] by simp
  ultimately show ?thesis by simp
qed

theorem research_failure_stops_pipeline_witness:
  "run_trading_pipeline (sample_env True (Inl (RateLimitError ''insufficient_quota''))
       [sample_decision ''AAPL'' ''BUY'' 2]) ([], 0)
     = (False, ([Get_clock, Get_account, Get_all_positions, Research_companies], 0))"
proof -
  let ?env = "sample_env True (Inl (RateLimitError ''insufficient_quota''))
       [sample_decision ''AAPL'' ''BUY'' 2]"
  have h1: "check_market_open ?env ([], 0) = (Inr True, ([Get_clock], 0))"
    using sample_market [of True _ _ "[]" 0] by simp
  have h2: "get_account_info ?env ([Get_clock], 0) =
     (Inr \<lparr>cash = 1000, portfolio_value = 1000, buying_power = 1000, positions = Map.empty\<rparr>,
      ([Get_clock, Get_account, Get_all_positions], 0))"
    using sample_account [of True _ _ "[Get_clock]" 0] by simp
  have h3: "invoke Research_companies (research_companies ?env)
              ([Get_clock, Get_account, Get_all_positions], 0)
            = (Inl (RateLimitError ''insufficient_quota''),
               ([Get_clock, Get_account, Get_all_positions, Research_companies], 0))"
    using sample_research [of True _ _ "[Get_clock, Get_account, Get_all_positions]" 0] by simp
  show ?thesis
    using research_failure_stops_pipeline [OF h1 h2 h3] by simp
qed

text \<open>
  C3 (as the code has it). When the stages up to the decision succeed, the execution
  step returns one trade result for each decision with action BUY and a positive share
  count, in the decisions' order, and none for any other decision; so the number of
  results is the number of such decisions, not the number of decisions. The pipeline
  returns True exactly when the number of failed results is zero.
\<close>

theorem results_one_per_buy_and_all_succeeded:
  assumes "check_market_open env st = (Inr True, st0)"
      and "get_account_info env st0 = (Inr info, st1)"
      and "invoke Research_companies (research_companies env) st1 = (Inr gpt, st2)"
      and "invoke Analyze_fundamentals (analyze_fundamentals env (picks gpt)) st2
             = (Inr claude, st3)"
      and "invoke Make_investment_decision
             (make_investment_decision env (picks gpt) (fundamentals claude)
                (cash info) (positions info)) st3 = (Inr grok, st4)"
  shows "\<exists>trade_results st5.
           execute_trades env (decisions grok) st4 = (Inr trade_results, st5)
         \<and> map (\<lambda>r. (tr_ticker r, tr_shares r)) trade_results
             = map (\<lambda>d. (d_ticker d, d_shares d))
                 (filter (\<lambda>d. d_action d = ''BUY'' \<and> 0 < d_shares d) (decisions grok))
         \<and> length trade_results
             = length (filter (\<lambda>d. d_action d = ''BUY'' \<and> 0 < d_shares d) (decisions grok))
         \<and> run_trading_pipeline env st
             = (length (filter (\<lambda>r. \<not> tr_success r) trade_results) = 0, st5)"
proof -
  from check_market_open_client [OF assms(1)] obtain c where c: "get_alpaca_client env = Inr c" ..
  define rs where "rs = fst (execute_loop env c (decisions grok) [] st4)"
  define st5 where "st5 = snd (execute_loop env c (decisions grok) [] st4)"
  have ex: "execute_trades env (decisions grok) st4 = (Inr rs, st5)"
    by (simp add: execute_trades_client [OF c] rs_def st5_def)
  have keys: "map (\<lambda>r. (tr_ticker r, tr_shares r, tr_action r)) rs
                = map (\<lambda>d. (d_ticker d, d_shares d, ''BUY'')) (filter eligible (decisions grok))"
    unfolding rs_def by (simp add: execute_loop_keys)
  have el: "eligible = (\<lambda>d. d_action d = ''BUY'' \<and> 0 < d_shares d)"
    by (rule ext) (rule eligible_iff)
  from keys have "map (\<lambda>k. (fst k, fst (snd k))) (map (\<lambda>r. (tr_ticker r, tr_shares r, tr_action r)) rs)
                = map (\<lambda>k. (fst k, fst (snd k))) (map (\<lambda>d. (d_ticker d, d_shares d, ''BUY'')) (filter eligible (decisions grok)))"
    by simp
  then have k2: "map (\<lambda>r. (tr_ticker r, tr_shares r)) rs
                = map (\<lambda>d. (d_ticker d, d_shares d)) (filter eligible (decisions grok))"
    by (simp add: comp_def)
  from k2 have len: "length rs = length (filter eligible (decisions grok))"
    by (metis length_map)
  have run: "run_trading_pipeline env st = (summarise rs, st5)"
    by (simp add: pipeline_to_execution [OF assms] ex)
  show ?thesis
    using ex k2 len run by (simp add: el summarise_count)
qed

theorem results_one_per_buy_and_all_succeeded_witness:
  "\<exists>trade_results st5.
      execute_trades (sample_env True (Inr sample_picks) sample_decisions) sample_decisions
        ([Get_clock, Get_account, Get_all_positions, Research_companies,
          Analyze_fundamentals, Make_investment_decision], 0) = (Inr trade_results, st5)
    \<and> length trade_results = 3
    \<and> length sample_decisions = 4
    \<and> run_trading_pipeline (sample_env True (Inr sample_picks) sample_decisions) ([], 0)
        = (length (filter (\<lambda>r. \<not> tr_success r) trade_results) = 0, st5)"
proof -
  let ?env = "sample_env True (Inr sample_picks) sample_decisions"
  let ?info = "\<lparr>cash = 1000, portfolio_value = 1000, buying_power = 1000, positions = Map.empty\<rparr>"
  let ?grok = "\<lparr>decisions = sample_decisions, portfolio_risk_analysis = [],
                available_capital = 1000\<rparr>"
  have h1: "check_market_open ?env ([], 0) = (Inr True, ([Get_clock], 0))"
    using sample_market [of True _ _ "[]" 0] by simp
  have h2: "get_account_info ?env ([Get_clock], 0) =
     (Inr ?info, ([Get_clock, Get_account, Get_all_positions], 0))"
    using sample_account [of True _ _ "[Get_clock]" 0] by simp
  have h3: "invoke Research_companies (research_companies ?env)
              ([Get_clock, Get_account, Get_all_positions], 0)
            = (Inr sample_picks,
               ([Get_clock, Get_account, Get_all_positions, Research_companies], 0))"
    using sample_research [of True _ _ "[Get_clock, Get_account, Get_all_positions]" 0] by simp
  have h4: "invoke Analyze_fundamentals (analyze_fundamentals ?env (picks sample_picks))
              ([Get_clock, Get_account, Get_all_positions, Research_companies], 0)
            = (Inr \<lparr>fundamentals = []\<rparr>,
               ([Get_clock, Get_account, Get_all_positions, Research_companies,
                 Analyze_fundamentals], 0))"
    using sample_analysis [of True _ _ _
        "[Get_clock, Get_account, Get_all_positions, Research_companies]" 0] by simp
  have h5: "invoke Make_investment_decision
              (make_investment_decision ?env (picks sample_picks)
                 (fundamentals \<lparr>fundamentals = []\<rparr>) (cash ?info) (positions ?info))
              ([Get_clock, Get_account, Get_all_positions, Research_companies,
                Analyze_fundamentals], 0)
            = (Inr ?grok,
               ([Get_clock, Get_account, Get_all_positions, Research_companies,
                 Analyze_fundamentals, Make_investment_decision], 0))"
    using sample_decide [of True _ sample_decisions _ _ 1000 _
        "[Get_clock, Get_account, Get_all_positions, Research_companies,
          Analyze_fundamentals]" 0] by simp
  from results_one_per_buy_and_all_succeeded [OF h1 h2 h3 h4 h5]
  obtain trs st5 where
    e: "execute_trades ?env (decisions ?grok)
          ([Get_clock, Get_account, Get_all_positions, Research_companies,
            Analyze_fundamentals, Make_investment_decision], 0) = (Inr trs, st5)"
    and l: "length trs
              = length (filter (\<lambda>d. d_action d = ''BUY'' \<and> 0 < d_shares d) (decisions ?grok))"
    and r: "run_trading_pipeline ?env ([], 0)
              = (length (filter (\<lambda>r. \<not> tr_success r) trs) = 0, st5)"
    by blast
  from e have e': "execute_trades ?env sample_decisions
          ([Get_clock, Get_account, Get_all_positions, Research_companies,
            Analyze_fundamentals, Make_investment_decision], 0) = (Inr trs, st5)"
    by simp
  from l have l3: "length trs = 3"
    by (simp add: sample_filter)
  have l4: "length sample_decisions = 4"
    by (simp add: sample_decisions_def)
  from e' l3 l4 r show ?thesis by blast
qed

text \<open>
  C3 as stated fails: one HOLD decision handed to the execution step gives no result.
\<close>

theorem one_result_per_decision_counterexample:
  "execute_trades (sample_env True (Inr sample_picks) []) [sample_decision ''MSFT'' ''HOLD'' 0]
      ([], 0) = (Inr [], ([], 0))
   \<and> length ([] :: trade_result list) \<noteq> length [sample_decision ''MSFT'' ''HOLD'' 0]"
  by (simp add: execute_trades_def sample_client_ok sample_decision_sel)

text \<open>
  C6. A decision whose order attempt raises (in the submission or in reading the fill
  price) does not stop the loop: the decisions before it keep their results, the failure
  is recorded as a result with \<open>success = False\<close> and the exception's text, and the
  decisions after it are processed from the state the failed attempt left. Once the
  client exists, \<open>execute_trades\<close> returns a result list for every decision list: no
  exception of an attempt leaves it.
\<close>

theorem failed_action_is_recorded_and_loop_continues:
  assumes "get_alpaca_client env = Inr c"
      and "eligible d"
      and "execute_loop env c ds1 [] st = (rs1, st1)"
      and "attempt env c d st1 = (Inl e, st2)"
      and "execute_loop env c ds2 [] st2 = (rs2, st3)"
  shows "execute_trades env (ds1 @ d # ds2) st = (Inr (rs1 @ failed_result d e # rs2), st3)
       \<and> \<not> tr_success (failed_result d e)
       \<and> tr_error_message (failed_result d e) = Some (str_of_exn e)
       \<and> (\<exists>rs st'. execute_trades env ds st0 = (Inr rs, st'))"
proof -
  from assms(2) have el: "\<not> (d_action d \<noteq> ''BUY'' \<or> d_shares d \<le> 0)"
    by (simp add: eligible_def)
  have one: "execute_one env c d st1 = (failed_result d e, st2)"
    by (simp add: execute_one_def assms(4))
  have rest: "execute_loop env c ds2 (rs1 @ [failed_result d e]) st2
                = (rs1 @ failed_result d e # rs2, st3)"
    using execute_loop_acc [of env c ds2 "rs1 @ [failed_result d e]" st2] assms(5) by simp
  have "execute_loop env c (ds1 @ d # ds2) [] st = (rs1 @ failed_result d e # rs2, st3)"
    using el by (simp add: execute_loop_append assms(3) one rest)
  then have "execute_trades env (ds1 @ d # ds2) st = (Inr (rs1 @ failed_result d e # rs2), st3)"
    by (simp add: execute_trades_client [OF assms(1)])
  moreover have "\<exists>rs st'. execute_trades env ds st0 = (Inr rs, st')"
    by (simp add: execute_trades_client [OF assms(1)])
  ultimately show ?thesis
    by (simp add: failed_result_def)
qed

theorem failed_action_is_recorded_and_loop_continues_witness:
  "execute_trades (sample_env True (Inr sample_picks) [])
      ([sample_decision ''AAPL'' ''BUY'' 2, sample_decision ''MSFT'' ''HOLD'' 0]
        @ sample_decision ''TSLA'' ''BUY'' 1 # [sample_decision ''NVDA'' ''BUY'' 3]) ([], 0)
    = (Inr ([filled_result (sample_decision ''AAPL'' ''BUY'' 2) sample_order (381 / 2)]
            @ failed_result (sample_decision ''TSLA'' ''BUY'' 1)
                (OtherError ''insufficient buying power'')
            # [filled_result (sample_decision ''NVDA'' ''BUY'' 3) sample_order (381 / 2)]),
       ([Submit_order ''AAPL'' 2, Submit_order ''TSLA'' 1, Submit_order ''NVDA'' 3], 2))
   \<and> tr_error_message (failed_result (sample_decision ''TSLA'' ''BUY'' 1)
        (OtherError ''insufficient buying power'')) = Some ''insufficient buying power''"
proof -
  let ?env = "sample_env True (Inr sample_picks) []"
  have a1: "get_alpaca_client ?env = Inr sample_client"
    by (rule sample_client_ok)
  have a2: "eligible (sample_decision ''TSLA'' ''BUY'' 1)"
    by (simp add: eligible_def sample_decision_sel)
  have a3: "execute_loop ?env sample_client
              [sample_decision ''AAPL'' ''BUY'' 2, sample_decision ''MSFT'' ''HOLD'' 0] [] ([], 0)
            = ([filled_result (sample_decision ''AAPL'' ''BUY'' 2) sample_order (381 / 2)],
               ([Submit_order ''AAPL'' 2], 1))"
    by (simp add: sample_decision_sel sample_execute_one_ok)
  have a4: "attempt ?env sample_client (sample_decision ''TSLA'' ''BUY'' 1)
              ([Submit_order ''AAPL'' 2], 1)
            = (Inl (OtherError ''insufficient buying power''),
               ([Submit_order ''AAPL'' 2, Submit_order ''TSLA'' 1], 1))"
    using sample_attempt_fail [of True _ _ _ 1 "[Submit_order ''AAPL'' 2]" 1] by simp
  have a5: "execute_loop ?env sample_client [sample_decision ''NVDA'' ''BUY'' 3] []
              ([Submit_order ''AAPL'' 2, Submit_order ''TSLA'' 1], 1)
            = ([filled_result (sample_decision ''NVDA'' ''BUY'' 3) sample_order (381 / 2)],
               ([Submit_order ''AAPL'' 2, Submit_order ''TSLA'' 1, Submit_order ''NVDA'' 3], 2))"
    by (simp add: sample_decision_sel sample_execute_one_ok)
  from failed_action_is_recorded_and_loop_continues [OF a1 a2 a3 a4 a5]
  show ?thesis by simp
qed

text \<open>
  C9. The orders \<open>execute_trades\<close> submits are those of the decisions with action BUY and
  a positive share count, in order, and the returned results are for the same
  decisions. A decision with another action or with shares at most zero is skipped
  whole: the call behaves as on the list without it.
\<close>

theorem only_buys_with_positive_shares_are_submitted:
  assumes "get_alpaca_client env = Inr c"
  shows "(\<exists>rs w'.
           execute_trades env ds (tr, w) =
             (Inr rs,
              (tr @ map (\<lambda>d. Submit_order (d_ticker d) (d_shares d))
                      (filter (\<lambda>d. d_action d = ''BUY'' \<and> 0 < d_shares d) ds), w'))
         \<and> map (\<lambda>r. (tr_ticker r, tr_shares r, tr_action r)) rs
             = map (\<lambda>d. (d_ticker d, d_shares d, ''BUY''))
                 (filter (\<lambda>d. d_action d = ''BUY'' \<and> 0 < d_shares d) ds))
       \<and> (d_action d \<noteq> ''BUY'' \<or> d_shares d \<le> 0 \<longrightarrow>
           execute_trades env (ds1 @ d # ds2) st = execute_trades env (ds1 @ ds2) st)"
proof (intro conjI impI)
  have el: "eligible = (\<lambda>d. d_action d = ''BUY'' \<and> 0 < d_shares d)"
    by (rule ext) (rule eligible_iff)
  define res where "res = execute_loop env c ds [] (tr, w)"
  have log: "fst (snd res) = tr @ map (\<lambda>d. Submit_order (d_ticker d) (d_shares d))
                      (filter (\<lambda>d. d_action d = ''BUY'' \<and> 0 < d_shares d) ds)"
    unfolding res_def using execute_loop_log [of env c ds "[]" "(tr, w)"] by (simp add: el)
  have keys: "map (\<lambda>r. (tr_ticker r, tr_shares r, tr_action r)) (fst res)
             = map (\<lambda>d. (d_ticker d, d_shares d, ''BUY''))
                 (filter (\<lambda>d. d_action d = ''BUY'' \<and> 0 < d_shares d) ds)"
    unfolding res_def using execute_loop_keys [of env c ds "[]" "(tr, w)"] by (simp add: el)
  have "execute_trades env ds (tr, w) = (Inr (fst res), (fst (snd res), snd (snd res)))"
    by (simp add: execute_trades_client [OF assms] res_def)
  with log keys
  show "\<exists>rs w'.
           execute_trades env ds (tr, w) =
             (Inr rs,
              (tr @ map (\<lambda>d. Submit_order (d_ticker d) (d_shares d))
                      (filter (\<lambda>d. d_action d = ''BUY'' \<and> 0 < d_shares d) ds), w'))
         \<and> map (\<lambda>r. (tr_ticker r, tr_shares r, tr_action r)) rs
             = map (\<lambda>d. (d_ticker d, d_shares d, ''BUY''))
                 (filter (\<lambda>d. d_action d = ''BUY'' \<and> 0 < d_shares d) ds)"
    by auto
next
  assume "d_action d \<noteq> ''BUY'' \<or> d_shares d \<le> 0"
  then have "\<not> eligible d" by (simp add: eligible_def)
  then show "execute_trades env (ds1 @ d # ds2) st = execute_trades env (ds1 @ ds2) st"
    by (simp add: execute_trades_def execute_loop_skip split: sum.splits)
qed

theorem only_buys_with_positive_shares_are_submitted_witness:
  "get_alpaca_client (sample_env True (Inr sample_picks) []) = Inr sample_client
   \<and> (\<exists>rs w'. execute_trades (sample_env True (Inr sample_picks) []) sample_decisions ([], 0)
         = (Inr rs, ([Submit_order ''AAPL'' 2, Submit_order ''TSLA'' 1, Submit_order ''NVDA'' 3], w'))
       \<and> map (\<lambda>r. (tr_ticker r, tr_shares r, tr_action r)) rs
           = [(''AAPL'', 2, ''BUY''), (''TSLA'', 1, ''BUY''), (''NVDA'', 3, ''BUY'')])
   \<and> execute_trades (sample_env True (Inr sample_picks) [])
        ([sample_decision ''AAPL'' ''BUY'' 2] @ sample_decision ''MSFT'' ''HOLD'' 0
           # [sample_decision ''TSLA'' ''BUY'' 1]) ([], 0)
     = execute_trades (sample_env True (Inr sample_picks) [])
        ([sample_decision ''AAPL'' ''BUY'' 2] @ [sample_decision ''TSLA'' ''BUY'' 1]) ([], 0)"
proof -
  let ?env = "sample_env True (Inr sample_picks) []"
  have a: "get_alpaca_client ?env = Inr sample_client"
    by (rule sample_client_ok)
  have skip: "d_action (sample_decision ''MSFT'' ''HOLD'' 0) \<noteq> ''BUY''
              \<or> d_shares (sample_decision ''MSFT'' ''HOLD'' 0) \<le> 0"
    by (simp add: sample_decision_sel)
  from only_buys_with_positive_shares_are_submitted
         [OF a, of sample_decisions "[]" 0 "sample_decision ''MSFT'' ''HOLD'' 0"
            "[sample_decision ''AAPL'' ''BUY'' 2]" "[sample_decision ''TSLA'' ''BUY'' 1]"
            "([], 0)"]
  have "(\<exists>rs w'. execute_trades ?env sample_decisions ([], 0)
         = (Inr rs, ([Submit_order ''AAPL'' 2, Submit_order ''TSLA'' 1, Submit_order ''NVDA'' 3], w'))
       \<and> map (\<lambda>r. (tr_ticker r, tr_shares r, tr_action r)) rs
           = [(''AAPL'', 2, ''BUY''), (''TSLA'', 1, ''BUY''), (''NVDA'', 3, ''BUY'')])"
    and "execute_trades ?env
        ([sample_decision ''AAPL'' ''BUY'' 2] @ sample_decision ''MSFT'' ''HOLD'' 0
           # [sample_decision ''TSLA'' ''BUY'' 1]) ([], 0)
     = execute_trades ?env
        ([sample_decision ''AAPL'' ''BUY'' 2] @ [sample_decision ''TSLA'' ''BUY'' 1]) ([], 0)"
    using skip by (simp_all add: sample_filter sample_decision_sel)
  with a show ?thesis by blast
qed

text \<open>
  C8. When the decision stage returns no decision, the pipeline returns True, and
  \<open>run_task\<close> on that run clears the flag and leaves the job list as it was: no retry is
  registered.
\<close>

theorem empty_decisions_succeed_without_retry:
  assumes "check_market_open env st = (Inr True, st0)"
      and "get_account_info env st0 = (Inr info, st1)"
      and "invoke Research_companies (research_companies env) st1 = (Inr gpt, st2)"
      and "invoke Analyze_fundamentals (analyze_fundamentals env (picks gpt)) st2
             = (Inr claude, st3)"
      and "invoke Make_investment_decision
             (make_investment_decision env (picks gpt) (fundamentals claude)
                (cash info) (positions info)) st3 = (Inr grok, st4)"
      and "decisions grok = []"
  shows "run_trading_pipeline env st = (True, st4)
       \<and> run_task (pipeline_task env) (s, st) = (s\<lparr>retry_scheduled := False\<rparr>, st4)
       \<and> jobs (fst (run_task (pipeline_task env) (s, st))) = jobs s
       \<and> \<not> retry_scheduled (fst (run_task (pipeline_task env) (s, st)))"
proof -
  from check_market_open_client [OF assms(1)] obtain c where c: "get_alpaca_client env = Inr c" ..
  have ex: "execute_trades env (decisions grok) st4 = (Inr [], st4)"
    by (simp add: execute_trades_client [OF c] assms(6))
  have p: "run_trading_pipeline env st = (True, st4)"
    by (simp add: pipeline_to_execution [OF assms(1-5)] ex summarise_def)
  have r: "run_task (pipeline_task env) (s, st) = (s\<lparr>retry_scheduled := False\<rparr>, st4)"
    by (simp add: run_task_def pipeline_task_def p)
  show ?thesis
    unfolding r p by simp
qed

theorem empty_decisions_succeed_without_retry_witness:
  "run_trading_pipeline (sample_env True (Inr sample_picks) []) ([], 0)
     = (True, ([Get_clock, Get_account, Get_all_positions, Research_companies,
                Analyze_fundamentals, Make_investment_decision], 0))
   \<and> run_task (pipeline_task (sample_env True (Inr sample_picks) []))
       (start_register init_scheduler, ([], 0))
     = (\<lparr>retry_scheduled = False, jobs = [Job_run_task]\<rparr>,
        ([Get_clock, Get_account, Get_all_positions, Research_companies,
          Analyze_fundamentals, Make_investment_decision], 0))"
proof -
  let ?env = "sample_env True (Inr sample_picks) []"
  let ?info = "\<lparr>cash = 1000, portfolio_value = 1000, buying_power = 1000, positions = Map.empty\<rparr>"
  let ?grok = "\<lparr>decisions = [], portfolio_risk_analysis = [], available_capital = 1000\<rparr>"
  have h1: "check_market_open ?env ([], 0) = (Inr True, ([Get_clock], 0))"
    using sample_market [of True _ _ "[]" 0] by simp
  have h2: "get_account_info ?env ([Get_clock], 0) =
     (Inr ?info, ([Get_clock, Get_account, Get_all_positions], 0))"
    using sample_account [of True _ _ "[Get_clock]" 0] by simp
  have h3: "invoke Research_companies (research_companies ?env)
              ([Get_clock, Get_account, Get_all_positions], 0)
            = (Inr sample_picks,
               ([Get_clock, Get_account, Get_all_positions, Research_companies], 0))"
    using sample_research [of True _ _ "[Get_clock, Get_account, Get_all_positions]" 0] by simp
  have h4: "invoke Analyze_fundamentals (analyze_fundamentals ?env (picks sample_picks))
              ([Get_clock, Get_account, Get_all_positions, Research_companies], 0)
            = (Inr \<lparr>fundamentals = []\<rparr>,
               ([Get_clock, Get_account, Get_all_positions, Research_companies,
                 Analyze_fundamentals], 0))"
    using sample_analysis [of True _ _ _
        "[Get_clock, Get_account, Get_all_positions, Research_companies]" 0] by simp
  have h5: "invoke Make_investment_decision
              (make_investment_decision ?env (picks sample_picks)
                 (fundamentals \<lparr>fundamentals = []\<rparr>) (cash ?info) (positions ?info))
              ([Get_clock, Get_account, Get_all_positions, Research_companies,
                Analyze_fundamentals], 0)
            = (Inr ?grok,
               ([Get_clock, Get_account, Get_all_positions, Research_companies,
                 Analyze_fundamentals, Make_investment_decision], 0))"
    using sample_decide [of True _ "[]" _ _ 1000 _
        "[Get_clock, Get_account, Get_all_positions, Research_companies,
          Analyze_fundamentals]" 0] by simp
  have h6: "decisions ?grok = []" by simp
  from empty_decisions_succeed_without_retry [OF h1 h2 h3 h4 h5 h6, of "start_register init_scheduler"]
  show ?thesis
    by (simp add: start_register_def init_scheduler_def)
qed

end
